theory Spec2Isabelle
  imports Main
begin

section \<open>JavaScript values and strings\<close>

text \<open>
  The values that reach the functions of \<^verbatim>\<open>App.jsx\<close>: spreadsheet cells as
  \<^verbatim>\<open>XLSX.utils.sheet_to_json\<close> delivers them for a workbook read without
  \<^verbatim>\<open>cellDates\<close> (strings, numbers, booleans), the fields of records parsed from
  \<^verbatim>\<open>localStorage\<close>, and \<^verbatim>\<open>undefined\<close> for a property that is absent.
  Numbers are the integer-valued ones, written in decimal by \<^verbatim>\<open>String\<close>; strings
  are ASCII text, one \<^typ>\<open>char\<close> per code unit, so that \<^verbatim>\<open>normalize('NFD')\<close>
  and the removal of combining marks change nothing.
\<close>

datatype jsval = JUndefined | JNull | JBool bool | JNum int | JStr string

fun truthy :: "jsval \<Rightarrow> bool" where
  "truthy JUndefined = False"
| "truthy JNull = False"
| "truthy (JBool b) = b"
| "truthy (JNum n) = (n \<noteq> 0)"
| "truthy (JStr s) = (s \<noteq> [])"

text \<open>\<^verbatim>\<open>a || b\<close> and \<^verbatim>\<open>a ?? b\<close>.\<close>

definition orElse :: "jsval \<Rightarrow> jsval \<Rightarrow> jsval" where
  "orElse a b = (if truthy a then a else b)"

fun nullish :: "jsval \<Rightarrow> jsval \<Rightarrow> jsval" where
  "nullish JUndefined b = b"
| "nullish JNull b = b"
| "nullish a b = a"

definition digitChar :: "nat \<Rightarrow> char" where
  "digitChar n = ''0123456789'' ! (n mod 10)"

fun natToString :: "nat \<Rightarrow> string" where
  "natToString n =
     (if n < 10 then [digitChar n] else natToString (n div 10) @ [digitChar n])"

declare natToString.simps [simp del]

definition numToString :: "int \<Rightarrow> string" where
  "numToString n = (if n < 0 then CHR ''-'' # natToString (nat (- n)) else natToString (nat n))"

text \<open>\<^verbatim>\<open>String(v)\<close>.\<close>

fun toStr :: "jsval \<Rightarrow> string" where
  "toStr JUndefined = ''undefined''"
| "toStr JNull = ''null''"
| "toStr (JBool b) = (if b then ''true'' else ''false'')"
| "toStr (JNum n) = numToString n"
| "toStr (JStr s) = s"

definition isDigit :: "char \<Rightarrow> bool" where
  "isDigit c = (c \<in> set ''0123456789'')"

text \<open>The white space of \<^verbatim>\<open>trim\<close> and of \<^verbatim>\<open>\s\<close> among the ASCII characters:
  tab, line feed, vertical tab, form feed, carriage return and space.\<close>

definition isWhite :: "char \<Rightarrow> bool" where
  "isWhite c = (c \<in> set [CHR 0x09, CHR 0x0A, CHR 0x0B, CHR 0x0C, CHR 0x0D, CHR 0x20])"

definition trim :: "string \<Rightarrow> string" where
  "trim s = rev (dropWhile isWhite (rev (dropWhile isWhite s)))"

definition toLowerCase :: "string \<Rightarrow> string" where
  "toLowerCase s =
     map (\<lambda>c. case map_of (zip ''ABCDEFGHIJKLMNOPQRSTUVWXYZ'' ''abcdefghijklmnopqrstuvwxyz'') c of
                 Some l \<Rightarrow> l | None \<Rightarrow> c) s"

text \<open>\<^verbatim>\<open>.replace(/[^a-z0-9 ]/g, ' ')\<close>\<close>

definition blankOthers :: "string \<Rightarrow> string" where
  "blankOthers s =
     map (\<lambda>c. if c \<in> set ''abcdefghijklmnopqrstuvwxyz0123456789 '' then c else CHR '' '') s"

text \<open>\<^verbatim>\<open>.replace(/\s+/g, ' ')\<close>: every maximal run of white space becomes one space.\<close>

fun collapseWhite :: "string \<Rightarrow> string" where
  "collapseWhite [] = []"
| "collapseWhite [c] = [if isWhite c then CHR '' '' else c]"
| "collapseWhite (c # d # cs) =
     (if isWhite c then (if isWhite d then collapseWhite (d # cs) else CHR '' '' # collapseWhite (d # cs))
      else c # collapseWhite (d # cs))"

text \<open>\<^verbatim>\<open>norm(s)\<close>: \<^verbatim>\<open>String(s ?? '')\<close>, trimmed, lower-cased, everything outside
  \<^verbatim>\<open>[a-z0-9 ]\<close> blanked, white space collapsed, trimmed again.\<close>

definition norm_js :: "jsval \<Rightarrow> string" where
  "norm_js s = trim (collapseWhite (blankOthers (toLowerCase (trim (toStr (nullish s (JStr '''')))))))"

text \<open>\<^verbatim>\<open>onlyDigits(s)\<close>: \<^verbatim>\<open>String(s || '').replace(/\D/g, '')\<close>.\<close>

definition onlyDigits :: "jsval \<Rightarrow> string" where
  "onlyDigits s = filter isDigit (toStr (orElse s (JStr '''')))"

definition startsWith :: "string \<Rightarrow> string \<Rightarrow> bool" where
  "startsWith s p = (take (length p) s = p)"

text \<open>\<^verbatim>\<open>t.includes(sub)\<close>: \<^verbatim>\<open>sub\<close> occurs in \<^verbatim>\<open>t\<close> as a contiguous piece.\<close>

fun includes_js :: "string \<Rightarrow> string \<Rightarrow> bool" where
  "includes_js [] sub = (sub = [])"
| "includes_js (c # cs) sub = (startsWith (c # cs) sub \<or> includes_js cs sub)"

section \<open>Client records and the identity key\<close>

text \<open>
  A row of the working set. \<^verbatim>\<open>_id\<close> and \<^verbatim>\<open>_source\<close> are written \<open>row_id\<close>
  and \<open>source\<close>; a property that the object does not have is \<^const>\<open>JUndefined\<close>.
\<close>

record row =
  row_id :: jsval
  CPF :: jsval
  Nome :: jsval
  Valor :: jsval
  VencimentoISO :: jsval
  Telefone :: jsval
  TipoNegociacao :: jsval
  Status :: jsval
  Obs :: jsval
  PromessaISO :: jsval
  source :: jsval
  createdAt :: jsval

definition keyForClientLike :: "row \<Rightarrow> string" where
  "keyForClientLike r =
     (let cpf = onlyDigits (CPF r) in
      if cpf \<noteq> [] \<and> 8 \<le> length cpf then ''cpf:'' @ cpf
      else let tel = onlyDigits (Telefone r) in
        if tel \<noteq> [] \<and> 10 \<le> length tel then ''tel:'' @ tel
        else [])"

section \<open>Dates and the host environment\<close>

text \<open>
  A \<^verbatim>\<open>Date\<close> is an instant in milliseconds since the epoch, or the invalid date
  whose time value is \<^verbatim>\<open>NaN\<close>. Instants are integers without bound: the limit of
  8.64e15 milliseconds on the time value of a \<^verbatim>\<open>Date\<close> is not part of the model.
\<close>

datatype jsdate = InvalidDate | ValidDate int

definition MS_DAY :: int where
  "MS_DAY = 24 * 60 * 60 * 1000"

text \<open>
  What the code takes from the browser and from the spreadsheet library is a parameter
  of the model: \<^verbatim>\<open>new Date(v)\<close> on one value, \<^verbatim>\<open>new Date(y, m, d)\<close> on the
  numbers that \<^verbatim>\<open>parse_date_code\<close> or the \<^verbatim>\<open>DD/MM/YYYY\<close> pattern deliver
  (always a valid date there), \<^verbatim>\<open>XLSX.SSF.parse_date_code\<close>, \<^verbatim>\<open>toISOString\<close>,
  \<^verbatim>\<open>encodeURIComponent\<close>, the time zone, and the instant
  \<^verbatim>\<open>today = new Date()\<close> taken when the application starts. The time zone is
  given by the offset of its standard time from UTC in milliseconds and, for every
  local calendar day, by whether daylight-saving time, one hour ahead of standard time,
  is in force at the midnight with which that day begins. The clock changes inside a
  day, not across a midnight.
\<close>

record env =
  newDate :: "jsval \<Rightarrow> jsdate"
  newDateYMD :: "int \<Rightarrow> int \<Rightarrow> int \<Rightarrow> int"
  parse_date_code :: "int \<Rightarrow> (int \<times> int \<times> int) option"
  toISOString :: "int \<Rightarrow> string"
  encodeURIComponent :: "string \<Rightarrow> string"
  tzOffset :: int
  dstAtMidnight :: "int \<Rightarrow> bool"
  today :: int

definition MS_HOUR :: int where
  "MS_HOUR = 60 * 60 * 1000"

text \<open>
  \<^verbatim>\<open>getFullYear\<close>, \<^verbatim>\<open>getMonth\<close> and \<^verbatim>\<open>getDate\<close> of a valid date name its
  local calendar day, one to one; the model keeps the number of that day, counted from
  the day of the epoch. \<^verbatim>\<open>new Date(y, m, d)\<close> on the year, month and date of a day
  is the instant of the local midnight with which that day begins: the midnight of
  standard time, one hour earlier when daylight-saving time is in force there. Across
  a change of the clock two consecutive midnights are 23 or 25 hours apart.
\<close>

definition midnightOfDay :: "env \<Rightarrow> int \<Rightarrow> int" where
  "midnightOfDay e day =
     day * MS_DAY - tzOffset e - (if dstAtMidnight e day then MS_HOUR else 0)"

text \<open>The local day of an instant is the day that has begun last: the day of the
  instant in standard time, or the next one when its midnight has passed already.\<close>

definition localDay :: "env \<Rightarrow> int \<Rightarrow> int" where
  "localDay e t =
     (let g = (t + tzOffset e) div MS_DAY
      in if midnightOfDay e (g + 1) \<le> t then g + 1 else g)"

text \<open>\<^verbatim>\<open>new Date(d.getFullYear(), d.getMonth(), d.getDate())\<close>\<close>

definition localMidnight :: "env \<Rightarrow> int \<Rightarrow> int" where
  "localMidnight e t = midnightOfDay e (localDay e t)"

text \<open>\<^verbatim>\<open>sameDay(a, b)\<close>: both present, and the same year, month and date; a field
  of an invalid date is \<^verbatim>\<open>NaN\<close>, which \<^verbatim>\<open>===\<close> nothing.\<close>

fun sameDay :: "env \<Rightarrow> jsdate option \<Rightarrow> jsdate option \<Rightarrow> bool" where
  "sameDay e (Some (ValidDate a)) (Some (ValidDate b)) = (localDay e a = localDay e b)"
| "sameDay e a b = False"

text \<open>\<^verbatim>\<open>a < b\<close> on two dates compares their time values; \<^verbatim>\<open>NaN\<close> is below nothing.\<close>

fun dateLess :: "jsdate \<Rightarrow> jsdate \<Rightarrow> bool" where
  "dateLess (ValidDate a) (ValidDate b) = (a < b)"
| "dateLess a b = False"

definition baseHoje :: "env \<Rightarrow> jsdate" where
  "baseHoje e = ValidDate (localMidnight e (today e))"

section \<open>Temporal classifier\<close>

definition vencDate :: "env \<Rightarrow> row \<Rightarrow> jsdate option" where
  "vencDate e r = (if truthy (VencimentoISO r) then Some (newDate e (VencimentoISO r)) else None)"

definition isPago :: "row \<Rightarrow> bool" where
  "isPago r = includes_js (norm_js (Status r)) ''pago''"

definition venceHoje :: "env \<Rightarrow> row \<Rightarrow> bool" where
  "venceHoje e r =
     (case vencDate e r of
        Some d \<Rightarrow> sameDay e (Some d) (Some (ValidDate (today e))) \<and> \<not> isPago r
      | None \<Rightarrow> False)"

definition atrasado :: "env \<Rightarrow> row \<Rightarrow> bool" where
  "atrasado e r =
     (case vencDate e r of
        Some d \<Rightarrow> dateLess d (baseHoje e) \<and> \<not> isPago r
      | None \<Rightarrow> False)"

text \<open>\<^verbatim>\<open>daysLate(r)\<close> is a number; \<open>None\<close> stands for \<^verbatim>\<open>NaN\<close>, which is what
  the arithmetic gives on an invalid date.\<close>

definition daysLate :: "env \<Rightarrow> row \<Rightarrow> int option" where
  "daysLate e r =
     (case vencDate e r of
        None \<Rightarrow> Some 0
      | Some InvalidDate \<Rightarrow> None
      | Some (ValidDate t) \<Rightarrow>
          (let baseVenc = localMidnight e t;
               diff = localMidnight e (today e) - baseVenc
           in Some (diff div MS_DAY)))"

text \<open>Comparisons of a number with a constant; every comparison with \<^verbatim>\<open>NaN\<close> is false.\<close>

fun numGreater :: "int option \<Rightarrow> int \<Rightarrow> bool" where
  "numGreater (Some n) k = (k < n)"
| "numGreater None k = False"

fun numGeq :: "int option \<Rightarrow> int \<Rightarrow> bool" where
  "numGeq (Some n) k = (k \<le> n)"
| "numGeq None k = False"

fun numLeq :: "int option \<Rightarrow> int \<Rightarrow> bool" where
  "numLeq (Some n) k = (n \<le> k)"
| "numLeq None k = False"

section \<open>Promise store and reconciliation\<close>

record promise =
  promiseISO :: jsval
  updatedAt :: jsval
  promise_note :: jsval
  snapshot :: "(string \<times> jsval) list"

type_synonym promise_store = "string \<Rightarrow> promise option"

text \<open>The function that \<^verbatim>\<open>upsertPromiseByKey\<close> hands to \<^verbatim>\<open>setPromises\<close>:
  from the previous store to the next one.\<close>

definition upsertPromiseByKey :: "string \<Rightarrow> promise option \<Rightarrow> promise_store \<Rightarrow> promise_store" where
  "upsertPromiseByKey key payloadOrNull prev =
     (case payloadOrNull of
        None \<Rightarrow> prev(key := None)
      | Some p \<Rightarrow> prev(key \<mapsto> p))"

text \<open>\<^verbatim>\<open>mergePromisesIntoRows\<close> reads the store \<^verbatim>\<open>promises\<close> of the render it
  belongs to; the store is its first argument here.\<close>

definition mergePromisesIntoRows :: "promise_store \<Rightarrow> row list \<Rightarrow> row list" where
  "mergePromisesIntoRows promises inRows =
     map (\<lambda>r.
        let k = keyForClientLike r;
            p = (if k \<noteq> [] then promises k else None)
        in case p of
             None \<Rightarrow> r
           | Some pl \<Rightarrow> if \<not> truthy (promiseISO pl) then r else r\<lparr>PromessaISO := promiseISO pl\<rparr>)
       inRows"

text \<open>A stored manual client has the fields of a row, without \<^verbatim>\<open>_source\<close>.\<close>

definition manualRows :: "row list \<Rightarrow> row list" where
  "manualRows manualClients =
     map (\<lambda>c. \<lparr> row_id = row_id c,
                CPF = orElse (CPF c) (JStr []),
                Nome = orElse (Nome c) (JStr []),
                Valor = nullish (Valor c) (JStr []),
                VencimentoISO = orElse (VencimentoISO c) (JStr []),
                Telefone = orElse (Telefone c) (JStr []),
                TipoNegociacao = orElse (TipoNegociacao c) (JStr []),
                Status = orElse (Status c) (JStr []),
                Obs = orElse (Obs c) (JStr []),
                PromessaISO = orElse (PromessaISO c) (JStr []),
                source = JStr ''manual'',
                createdAt = orElse (createdAt c) (JStr []) \<rparr>)
       manualClients"

definition composeRows :: "row list \<Rightarrow> promise_store \<Rightarrow> row list \<Rightarrow> row list" where
  "composeRows manualClients promises importedRows =
     (let imp = map (\<lambda>r. r\<lparr>source := JStr ''excel''\<rparr>) importedRows
      in mergePromisesIntoRows promises (manualRows manualClients @ imp))"

text \<open>The state of the component that the promise handlers read and write.\<close>

record app_state =
  manualClients :: "row list"
  promises :: promise_store
  rows :: "row list"

text \<open>
  \<^verbatim>\<open>removePromiseByKey(key)\<close>, with the answer of the \<^verbatim>\<open>confirm\<close> dialog as an
  argument. The store loses the key; the rows become \<^verbatim>\<open>mergePromisesIntoRows(prev)\<close>,
  computed by the closure of the render in which the handler was created, whose
  \<^verbatim>\<open>promises\<close> is the store before the removal.
\<close>

definition removePromiseByKey :: "bool \<Rightarrow> string \<Rightarrow> app_state \<Rightarrow> app_state" where
  "removePromiseByKey confirmed key st =
     (if \<not> confirmed then st
      else st\<lparr> promises := upsertPromiseByKey key None (promises st),
               rows := mergePromisesIntoRows (promises st) (rows st) \<rparr>)"

text \<open>\<^verbatim>\<open>setRows(composeRows(withId))\<close>, the full rebuild of the working set.\<close>

definition setRowsComposed :: "row list \<Rightarrow> app_state \<Rightarrow> app_state" where
  "setRowsComposed importedRows st =
     st\<lparr> rows := composeRows (manualClients st) (promises st) importedRows \<rparr>"

text \<open>What the export writes in the column \<^verbatim>\<open>Promessa\<close> is decided by
  \<^verbatim>\<open>r.PromessaISO ? ... : ''\<close>.\<close>

definition hasPromessa :: "row \<Rightarrow> bool" where
  "hasPromessa r = truthy (PromessaISO r)"

section \<open>Header detection\<close>

text \<open>A sheet is the array of arrays of \<^verbatim>\<open>sheet_to_json(ws, {header: 1, defval: ''})\<close>.\<close>

type_synonym sheet = "jsval list list"

definition looksCpf :: "jsval \<Rightarrow> bool" where
  "looksCpf cell =
     (let t = norm_js cell in
      t = ''cpf'' \<or> includes_js t ''cpf'' \<or> includes_js t ''cpf cnpj''
      \<or> includes_js t ''cpf/cnpj'' \<or> includes_js t ''documento'')"

definition looksNome :: "jsval \<Rightarrow> bool" where
  "looksNome cell =
     (let t = norm_js cell in
      t = ''nome'' \<or> includes_js t ''nome'' \<or> includes_js t ''cliente'')"

text \<open>\<^verbatim>\<open>aoa[i] || []\<close>: an index past the end reads \<^verbatim>\<open>undefined\<close>.\<close>

definition rowAt :: "sheet \<Rightarrow> nat \<Rightarrow> jsval list" where
  "rowAt aoa i = (if i < length aoa then aoa ! i else [])"

text \<open>The inner loop over the cells of one row, on the pair \<^verbatim>\<open>(cpfOk, nomeOk)\<close>.\<close>

fun rowFlags :: "bool \<times> bool \<Rightarrow> jsval list \<Rightarrow> bool \<times> bool" where
  "rowFlags (cpfOk, nomeOk) [] = (cpfOk, nomeOk)"
| "rowFlags (cpfOk, nomeOk) (cell # rest) =
     rowFlags (if \<not> cpfOk \<and> looksCpf cell then True else cpfOk,
               if \<not> nomeOk \<and> looksNome cell then True else nomeOk) rest"

function scanLabels :: "sheet \<Rightarrow> nat \<Rightarrow> nat \<Rightarrow> nat option" where
  "scanLabels aoa maxScan i =
     (if i < maxScan then
        (case rowFlags (False, False) (rowAt aoa i) of
           (cpfOk, nomeOk) \<Rightarrow> if cpfOk \<and> nomeOk then Some i else scanLabels aoa maxScan (Suc i))
      else None)"
  by pat_completeness auto
termination
  by (relation "measure (\<lambda>(aoa, maxScan, i). maxScan - i)") auto

declare scanLabels.simps [simp del]

definition filled :: "jsval list \<Rightarrow> nat" where
  "filled cells = length (filter (\<lambda>c. trim (toStr (nullish c (JStr []))) \<noteq> []) cells)"

function scanFilled :: "sheet \<Rightarrow> nat \<Rightarrow> nat \<Rightarrow> nat option" where
  "scanFilled aoa maxScan i =
     (if i < maxScan then
        (if 3 \<le> filled (rowAt aoa i) then Some i else scanFilled aoa maxScan (Suc i))
      else None)"
  by pat_completeness auto
termination
  by (relation "measure (\<lambda>(aoa, maxScan, i). maxScan - i)") auto

declare scanFilled.simps [simp del]

definition findHeaderRow :: "sheet \<Rightarrow> nat" where
  "findHeaderRow aoa =
     (let maxScan = min 25 (length aoa) in
      case scanLabels aoa maxScan 0 of
        Some i \<Rightarrow> i
      | None \<Rightarrow> (case scanFilled aoa maxScan 0 of Some i \<Rightarrow> i | None \<Rightarrow> 0))"

text \<open>The property of a row that the first loop looks for, in the words of the
  description: some cell looks like a national-id label and some cell looks like a
  name label.\<close>

definition hasIdAndNameLabel :: "jsval list \<Rightarrow> bool" where
  "hasIdAndNameLabel cells = ((\<exists>c \<in> set cells. looksCpf c) \<and> (\<exists>c \<in> set cells. looksNome c))"

section \<open>Row normalizer\<close>

text \<open>A raw row is the object of \<^verbatim>\<open>sheet_to_json\<close>: its keys, in the order
  \<^verbatim>\<open>Object.keys\<close> gives them, each with its cell.\<close>

type_synonym rawObj = "(string \<times> jsval) list"

fun getBy :: "(string \<Rightarrow> bool) \<Rightarrow> rawObj \<Rightarrow> jsval" where
  "getBy predicate [] = JStr []"
| "getBy predicate ((k, v) # rest) =
     (if predicate (norm_js (JStr k)) then v else getBy predicate rest)"

definition isCpfKey :: "string \<Rightarrow> bool" where
  "isCpfKey k = (k = ''cpf'' \<or> includes_js k ''cpf'' \<or> includes_js k ''cpf cnpj''
     \<or> includes_js k ''cpf/cnpj'' \<or> includes_js k ''documento'')"

definition isNomeKey :: "string \<Rightarrow> bool" where
  "isNomeKey k = (k = ''nome'' \<or> includes_js k ''nome'' \<or> includes_js k ''cliente'')"

definition isValorKey :: "string \<Rightarrow> bool" where
  "isValorKey k = (k = ''valor'' \<or> includes_js k ''valor'' \<or> includes_js k ''vlr''
     \<or> includes_js k ''parcela'' \<or> includes_js k ''acordo'')"

definition isVencKey :: "string \<Rightarrow> bool" where
  "isVencKey k = (k = ''data'' \<or> includes_js k ''venc'' \<or> includes_js k ''vencimento''
     \<or> includes_js k ''data venc'' \<or> includes_js k ''dt venc'' \<or> includes_js k ''vcto'')"

definition isTelefoneKey :: "string \<Rightarrow> bool" where
  "isTelefoneKey k = (includes_js k ''tel'' \<or> includes_js k ''fone'' \<or> includes_js k ''cel''
     \<or> includes_js k ''contato'' \<or> includes_js k ''whats'')"

definition isTipoKey :: "string \<Rightarrow> bool" where
  "isTipoKey k = (includes_js k ''tipo'' \<or> includes_js k ''negoci''
     \<or> includes_js k ''tipo de negoci'' \<or> includes_js k ''modalidade'')"

definition isStatusKey :: "string \<Rightarrow> bool" where
  "isStatusKey k = (k = ''status'' \<or> includes_js k ''status'' \<or> includes_js k ''situacao''
     \<or> includes_js k ''sit'' \<or> includes_js k ''pag'')"

text \<open>The third trigger of the notes column is the accented spelling of
  \<open>observacao\<close>, with the code units \<open>0xE7\<close> (c with cedilla) and \<open>0xE3\<close> (a with
  tilde); the output of \<open>norm_js\<close> has no such character.\<close>

definition isObsKey :: "string \<Rightarrow> bool" where
  "isObsKey k = (includes_js k ''obs'' \<or> includes_js k ''observacao''
     \<or> includes_js k (''observa'' @ [CHR 0xE7, CHR 0xE3] @ ''o'')
     \<or> includes_js k ''coment'' \<or> includes_js k ''anot'')"

definition digitVal :: "char \<Rightarrow> int" where
  "digitVal c = (case map_of (zip ''0123456789'' [0, 1, 2, 3, 4, 5, 6, 7, 8, 9]) c of
                   Some n \<Rightarrow> n | None \<Rightarrow> 0)"

text \<open>\<^verbatim>\<open>Number\<close> on a string of decimal digits.\<close>

definition digitsToNumber :: "string \<Rightarrow> int" where
  "digitsToNumber s = foldl (\<lambda>a c. 10 * a + digitVal c) 0 s"

text \<open>\<^verbatim>\<open>s.match(/^(\d{2})\/(\d{2})\/(\d{4})$/)\<close>: the three groups, or no match.\<close>

definition matchDMY :: "string \<Rightarrow> (string \<times> string \<times> string) option" where
  "matchDMY s =
     (if length s = 10 \<and> s ! 2 = CHR ''/'' \<and> s ! 5 = CHR ''/''
         \<and> list_all isDigit (take 2 s) \<and> list_all isDigit (take 2 (drop 3 s))
         \<and> list_all isDigit (drop 6 s)
      then Some (take 2 s, take 2 (drop 3 s), drop 6 s) else None)"

text \<open>\<^verbatim>\<open>excelToDate(value)\<close>: a valid instant, or \<open>None\<close> for \<^verbatim>\<open>null\<close>. No value
  of \<^typ>\<open>jsval\<close> is an instance of \<^verbatim>\<open>Date\<close>, so the first test of the function
  never holds.\<close>

definition excelToDateText :: "env \<Rightarrow> jsval \<Rightarrow> int option" where
  "excelToDateText e v =
     (let s = trim (toStr (orElse v (JStr []))) in
      case matchDMY s of
        Some (dd, mm, yyyy) \<Rightarrow>
          Some (newDateYMD e (digitsToNumber yyyy) (digitsToNumber mm - 1) (digitsToNumber dd))
      | None \<Rightarrow> (case newDate e (JStr s) of ValidDate t \<Rightarrow> Some t | InvalidDate \<Rightarrow> None))"

definition excelToDate :: "env \<Rightarrow> jsval \<Rightarrow> int option" where
  "excelToDate e v =
     (case v of
        JNum n \<Rightarrow>
          (case parse_date_code e n of
             Some (y, m, d) \<Rightarrow> Some (newDateYMD e y (m - 1) d)
           | None \<Rightarrow> excelToDateText e v)
      | _ \<Rightarrow> excelToDateText e v)"

definition trimmedField :: "jsval \<Rightarrow> string" where
  "trimmedField v = trim (toStr (nullish v (JStr [])))"

definition mapRow :: "env \<Rightarrow> rawObj \<Rightarrow> row" where
  "mapRow e raw =
     (let cpf = getBy isCpfKey raw;
          nome = getBy isNomeKey raw;
          valor = getBy isValorKey raw;
          vencRaw = getBy isVencKey raw;
          telefone = getBy isTelefoneKey raw;
          tipoNegociacao = getBy isTipoKey raw;
          status = getBy isStatusKey raw;
          obs = getBy isObsKey raw;
          vencDate = excelToDate e vencRaw
      in \<lparr> row_id = JUndefined,
           CPF = JStr (trimmedField cpf),
           Nome = JStr (trimmedField nome),
           Valor = valor,
           VencimentoISO = JStr (case vencDate of Some t \<Rightarrow> toISOString e t | None \<Rightarrow> []),
           Telefone = JStr (trimmedField telefone),
           TipoNegociacao = JStr (trimmedField tipoNegociacao),
           Status = JStr (trimmedField status),
           Obs = JStr (trimmedField obs),
           PromessaISO = JUndefined,
           source = JUndefined,
           createdAt = JUndefined \<rparr>)"

text \<open>The filter of \<^verbatim>\<open>loadSelectedSheet\<close>: \<^verbatim>\<open>r.CPF || r.Nome || r.Telefone\<close>.\<close>

definition keepRow :: "row \<Rightarrow> bool" where
  "keepRow r = truthy (orElse (orElse (CPF r) (Nome r)) (Telefone r))"

text \<open>\<^verbatim>\<open>mapped.map((r, i) => ({ _id: String(i + 1), ...r }))\<close>, counting from \<open>i\<close>.\<close>

fun withId :: "nat \<Rightarrow> row list \<Rightarrow> row list" where
  "withId i [] = []"
| "withId i (r # rest) = r\<lparr>row_id := JStr (numToString (int i + 1))\<rparr> # withId (Suc i) rest"

text \<open>The rows that \<^verbatim>\<open>loadSelectedSheet\<close> hands to \<^verbatim>\<open>composeRows\<close>, from the
  objects \<^verbatim>\<open>json\<close> read below the header row.\<close>

definition loadSelectedSheet :: "env \<Rightarrow> rawObj list \<Rightarrow> row list" where
  "loadSelectedSheet e json =
     (let mapped = filter keepRow (map (mapRow e) json)
      in withId 0 mapped)"

text \<open>The condition of the description: national id, name and phone all empty after
  trimming.\<close>

definition idNamePhoneBlank :: "rawObj \<Rightarrow> bool" where
  "idNamePhoneBlank raw =
     (trimmedField (getBy isCpfKey raw) = [] \<and> trimmedField (getBy isNomeKey raw) = []
      \<and> trimmedField (getBy isTelefoneKey raw) = [])"

section \<open>Messaging link and bulk selection\<close>

definition e164 :: "jsval \<Rightarrow> string" where
  "e164 telefoneComDDD =
     (let d = onlyDigits telefoneComDDD in if startsWith d ''55'' then d else ''55'' @ d)"

text \<open>\<^verbatim>\<open>buildWhatsLinkBR\<close>; the empty string is the result that the caller takes for
  an invalid phone.\<close>

definition buildWhatsLinkBR :: "env \<Rightarrow> jsval \<Rightarrow> string \<Rightarrow> string" where
  "buildWhatsLinkBR e telefoneComDDD message =
     (if length (e164 telefoneComDDD) < 12 then []
      else ''https://wa.me/'' @ e164 telefoneComDDD @ ''?text='' @ encodeURIComponent e message)"

text \<open>The array \<^verbatim>\<open>phones\<close> of \<^verbatim>\<open>bulkPhones\<close>, and its lines joined.\<close>

definition bulkPhoneList :: "row list \<Rightarrow> string list" where
  "bulkPhoneList list =
     map (\<lambda>d. if startsWith d ''55'' then d else ''55'' @ d)
       (filter (\<lambda>d. d \<noteq> [] \<and> 10 \<le> length d)
         (map (\<lambda>r. onlyDigits (Telefone r)) list))"

fun joinLines :: "string list \<Rightarrow> string" where
  "joinLines [] = []"
| "joinLines [x] = x"
| "joinLines (x # y # rest) = x @ [CHR 0x0A] @ joinLines (y # rest)"

definition bulkPhones :: "row list \<Rightarrow> string" where
  "bulkPhones list = joinLines (bulkPhoneList list)"

text \<open>
  What \<^verbatim>\<open>copyBulkFromCurrentView(kind)\<close> does on the filtered view: a notice that
  the view is empty, a notice that no record of the view matches, the text put on the
  clipboard with the number of matching records shown in the notice, or nothing for
  an unknown kind.
\<close>

datatype bulk_outcome = EmptyView | NoMatch | Copied string nat | NoAction

definition copyBulkFromCurrentView :: "env \<Rightarrow> string \<Rightarrow> row list \<Rightarrow> bulk_outcome" where
  "copyBulkFromCurrentView e kind filtered =
     (if filtered = [] then EmptyView
      else if kind = ''HOJE'' then
        (let list = filter (\<lambda>r. venceHoje e r \<and> \<not> isPago r) filtered
         in if list = [] then NoMatch else Copied (bulkPhones list) (length list))
      else if kind = ''QUEBRAS'' then
        (let list = filter (\<lambda>r. atrasado e r \<and> numGreater (daysLate e r) 5 \<and> \<not> isPago r) filtered
         in if list = [] then NoMatch else Copied (bulkPhones list) (length list))
      else if kind = ''ATRASADO_1_5'' then
        (let list = filter (\<lambda>r. atrasado e r \<and> numGeq (daysLate e r) 1
                                 \<and> numLeq (daysLate e r) 5 \<and> \<not> isPago r) filtered
         in if list = [] then NoMatch else Copied (bulkPhones list) (length list))
      else NoAction)"

text \<open>The selection in the words of the description: the records of the view, in its
  order, that are overdue, not paid and more than five days late; of each, the digits
  of the phone, dropped when fewer than ten, with \<open>55\<close> in front unless already there.\<close>

definition breachPhones :: "env \<Rightarrow> row list \<Rightarrow> string list" where
  "breachPhones e view =
     concat (map (\<lambda>r.
        if atrasado e r \<and> \<not> isPago r \<and> numGreater (daysLate e r) 5
           \<and> 10 \<le> length (onlyDigits (Telefone r))
        then [if startsWith (onlyDigits (Telefone r)) ''55'' then onlyDigits (Telefone r)
              else ''55'' @ onlyDigits (Telefone r)]
        else []) view)"

section \<open>Example data\<close>

text \<open>
  A host for the examples: local time three hours behind UTC, the application started
  on 15 March 2024 at 12:30 local time, and a \<^verbatim>\<open>Date\<close> that reads the ISO strings
  of a few local midnights.
\<close>

definition demoDates :: "(string \<times> int) list" where
  "demoDates =
     [(''2024-03-15T03:00:00.000Z'', 1710471600000),
      (''2024-03-14T03:00:00.000Z'', 1710385200000),
      (''2024-03-12T03:00:00.000Z'', 1710212400000),
      (''2024-03-09T03:00:00.000Z'', 1709953200000),
      (''2024-03-05T03:00:00.000Z'', 1709607600000),
      (''2024-03-20T03:00:00.000Z'', 1710903600000)]"

definition demoEnv :: env where
  "demoEnv =
     \<lparr> newDate = (\<lambda>v. case v of
                      JStr s \<Rightarrow> (case map_of demoDates s of
                                   Some t \<Rightarrow> ValidDate t | None \<Rightarrow> InvalidDate)
                    | JNum n \<Rightarrow> ValidDate n
                    | _ \<Rightarrow> InvalidDate),
       newDateYMD = (\<lambda>y m d. if (y, m, d) = (2024, 2, 15) then 1710471600000 else 0),
       parse_date_code = (\<lambda>n. if n = 45366 then Some (2024, 3, 15) else None),
       toISOString = (\<lambda>t. if t = 1710471600000 then ''2024-03-15T03:00:00.000Z''
                           else ''1970-01-01T00:00:00.000Z''),
       encodeURIComponent = (\<lambda>s. concat (map (\<lambda>c. if c = CHR '' '' then ''%20'' else [c]) s)),
       tzOffset = - 10800000,
       dstAtMidnight = (\<lambda>day. False),
       today = 1710516600000 \<rparr>"

text \<open>
  A host in New York on 11 March 2024 at 12:00 local time. Standard time is five hours
  behind UTC; the clock went forward at 2:00 on 10 March 2024 (day 19792 from the
  epoch) and goes back at 2:00 on 3 November 2024 (day 20030), so daylight-saving time
  is in force at the midnights of the days 19793 to 20030.
\<close>

definition nyEnv :: env where
  "nyEnv =
     \<lparr> newDate = (\<lambda>v. case v of
                      JStr s \<Rightarrow> (if s = ''2024-03-10T05:00:00.000Z'' then ValidDate 1710046800000
                                 else InvalidDate)
                    | JNum n \<Rightarrow> ValidDate n
                    | _ \<Rightarrow> InvalidDate),
       newDateYMD = (\<lambda>y m d. 0),
       parse_date_code = (\<lambda>n. None),
       toISOString = (\<lambda>t. ''1970-01-01T00:00:00.000Z''),
       encodeURIComponent = (\<lambda>s. s),
       tzOffset = - 18000000,
       dstAtMidnight = (\<lambda>day. 19793 \<le> day \<and> day \<le> 20030),
       today = 1710172800000 \<rparr>"

definition clientRow :: "string \<Rightarrow> string \<Rightarrow> string \<Rightarrow> string \<Rightarrow> string \<Rightarrow> row" where
  "clientRow cpf nome venc tel status =
     \<lparr> row_id = JUndefined, CPF = JStr cpf, Nome = JStr nome, Valor = JNum 100,
       VencimentoISO = JStr venc, Telefone = JStr tel, TipoNegociacao = JStr [],
       Status = JStr status, Obs = JStr [], PromessaISO = JUndefined,
       source = JUndefined, createdAt = JUndefined \<rparr>"

text \<open>A view of five records: two of them overdue by 6 and by 10 days and not paid,
  one overdue by 3 days, one overdue by 10 days and paid, one due in the future.\<close>

definition demoView :: "row list" where
  "demoView =
     [clientRow ''111.111.111-11'' ''Ana'' ''2024-03-09T03:00:00.000Z'' ''(11) 98765-4321'' ''pendente'',
      clientRow ''222.222.222-22'' ''Bruno'' ''2024-03-12T03:00:00.000Z'' ''(11) 91111-2222'' [],
      clientRow ''333.333.333-33'' ''Carla'' ''2024-03-05T03:00:00.000Z'' ''+55 21 91234-5678'' [],
      clientRow ''444.444.444-44'' ''Davi'' ''2024-03-05T03:00:00.000Z'' ''(31) 93333-4444'' ''Pago'',
      clientRow ''555.555.555-55'' ''Elisa'' ''2024-03-20T03:00:00.000Z'' ''(41) 95555-6666'' []]"

definition paidDueToday :: row where
  "paidDueToday =
     clientRow ''666.666.666-66'' ''Fabio'' ''2024-03-15T03:00:00.000Z'' ''(51) 97777-8888'' ''PAGO em dia''"

definition openDueToday :: row where
  "openDueToday =
     clientRow ''777.777.777-77'' ''Gil'' ''2024-03-15T03:00:00.000Z'' ''(51) 97777-9999'' ''pendente''"

definition openDueYesterday :: row where
  "openDueYesterday =
     clientRow ''888.888.888-88'' ''Hugo'' ''2024-03-14T03:00:00.000Z'' ''(51) 97777-0000'' []"

definition paidDueYesterday :: row where
  "paidDueYesterday =
     clientRow ''999.999.999-99'' ''Iara'' ''2024-03-14T03:00:00.000Z'' ''(51) 97777-1111'' ''Pago''"

text \<open>Not paid, due at the local midnight of 10 March 2024 in New York.\<close>

definition dueBeforeClockChange :: row where
  "dueBeforeClockChange =
     clientRow ''121.212.121-21'' ''Kim'' ''2024-03-10T05:00:00.000Z'' ''(11) 92222-3333'' []"

definition noDueDate :: row where
  "noDueDate = clientRow [] ''Joao'' [] ''(11) 90000-0000'' []"

text \<open>Three sheets: a banner and a blank row above the header; no labelled row but a
  row with three filled cells; neither.\<close>

definition sheetWithBanner :: sheet where
  "sheetWithBanner =
     [[JStr ''Relatorio de acordos - nome da carteira''],
      [],
      [JStr ''CPF/CNPJ'', JStr ''Nome do Cliente'', JStr ''Valor'', JStr ''Telefone''],
      [JStr ''123.456.789-00'', JStr ''Ana'', JNum 150, JStr ''(11) 98765-4321'']]"

definition sheetNoLabels :: sheet where
  "sheetNoLabels =
     [[JStr ''Carteira''],
      [JStr ''  '', JStr ''A'', JStr []],
      [JStr ''Codigo'', JNum 0, JBool False],
      [JStr ''x'', JStr ''y'', JStr ''z'']]"

definition sheetSparse :: sheet where
  "sheetSparse = [[JStr ''Carteira''], [JStr ''A'', JStr ''B'']]"

text \<open>Two raw rows: one with amount and due date but no national id, name or phone;
  one with a name only, an amount that is no number and a due date that is no date.\<close>

definition rawBlank :: rawObj where
  "rawBlank =
     [(''CPF'', JStr []), (''Nome'', JStr ''   ''), (''Telefone'', JStr []),
      (''Valor'', JNum 100), (''Vencimento'', JStr ''15/03/2024'')]"

definition rawNameOnly :: rawObj where
  "rawNameOnly =
     [(''CPF'', JStr []), (''Nome do Cliente'', JStr '' Ana ''), (''Fone'', JStr []),
      (''Valor'', JStr ''a combinar''), (''Vencimento'', JStr ''amanha'')]"

text \<open>A store with one promise, for the key of the national id \<open>111.111.111-11\<close>, and
  the state whose working set was composed from that store and one imported row.\<close>

definition demoPromise :: promise where
  "demoPromise =
     \<lparr> promiseISO = JStr ''2024-03-20T03:00:00.000Z'', updatedAt = JStr ''2024-03-15T15:30:00.000Z'',
       promise_note = JStr [], snapshot = [(''Nome'', JStr ''Ana'')] \<rparr>"

definition demoStore :: promise_store where
  "demoStore = Map.empty(''cpf:11111111111'' \<mapsto> demoPromise)"

definition importedAna :: row where
  "importedAna =
     (clientRow ''111.111.111-11'' ''Ana'' ''2024-03-09T03:00:00.000Z'' ''(11) 98765-4321'' [])
       \<lparr>row_id := JStr ''1''\<rparr>"

definition demoState :: app_state where
  "demoState =
     \<lparr> manualClients = [], promises = demoStore,
       rows = composeRows [] demoStore [importedAna] \<rparr>"

section \<open>Identity resolver\<close>

text \<open>
  C4. The key of a record is \<open>cpf:\<close> followed by the digits of its national id when
  there are at least 8 of them; otherwise \<open>tel:\<close> followed by the digits of its phone
  when there are at least 10 of them; otherwise the empty key. A record whose national
  id is \<open>123.456.789-00\<close> and one whose national id is \<open>12345678900\<close> get the same key,
  whatever their other fields.
\<close>

theorem keyForClientLike_resolve:
  "(8 \<le> length (onlyDigits (CPF r)) \<longrightarrow>
      keyForClientLike r = ''cpf:'' @ onlyDigits (CPF r))
   \<and> (length (onlyDigits (CPF r)) < 8 \<and> 10 \<le> length (onlyDigits (Telefone r)) \<longrightarrow>
      keyForClientLike r = ''tel:'' @ onlyDigits (Telefone r))
   \<and> (length (onlyDigits (CPF r)) < 8 \<and> length (onlyDigits (Telefone r)) < 10 \<longrightarrow>
      keyForClientLike r = [])
   \<and> (CPF a = JStr ''123.456.789-00'' \<and> CPF b = JStr ''12345678900'' \<longrightarrow>
      keyForClientLike a = keyForClientLike b \<and> keyForClientLike a = ''cpf:12345678900'')"
  by (auto simp: keyForClientLike_def Let_def onlyDigits_def orElse_def isDigit_def)

text \<open>The three cases and the two spellings of one national id, on concrete records.\<close>

theorem keyForClientLike_resolve_witness:
  "keyForClientLike (clientRow ''123.456.789-00'' ''Ana'' [] ''(11) 98765-4321'' []) = ''cpf:12345678900''
   \<and> keyForClientLike (clientRow ''12345678900'' ''Ana B'' [] [] []) = ''cpf:12345678900''
   \<and> keyForClientLike (clientRow ''123'' ''Ana'' [] ''(11) 98765-4321'' []) = ''tel:11987654321''
   \<and> keyForClientLike (clientRow ''123'' ''Ana'' [] ''98765-4321'' []) = []"
proof -
  let ?a = "clientRow ''123.456.789-00'' ''Ana'' [] ''(11) 98765-4321'' []"
  let ?b = "clientRow ''12345678900'' ''Ana B'' [] [] []"
  let ?c = "clientRow ''123'' ''Ana'' [] ''(11) 98765-4321'' []"
  let ?d = "clientRow ''123'' ''Ana'' [] ''98765-4321'' []"
  have dc: "onlyDigits (CPF ?c) = ''123''" "onlyDigits (Telefone ?c) = ''11987654321''"
    by (simp_all add: clientRow_def onlyDigits_def orElse_def isDigit_def)
  have dd: "onlyDigits (CPF ?d) = ''123''" "onlyDigits (Telefone ?d) = ''987654321''"
    by (simp_all add: clientRow_def onlyDigits_def orElse_def isDigit_def)
  have ab: "CPF ?a = JStr ''123.456.789-00'' \<and> CPF ?b = JStr ''12345678900''"
    by (simp add: clientRow_def)
  show ?thesis
    using keyForClientLike_resolve [of ?c ?a ?b] keyForClientLike_resolve [of ?d ?a ?b] dc dd ab
    by simp
qed

section \<open>Header detection\<close>

lemma rowFlags_eq:
  "rowFlags (a, b) cells =
     (a \<or> (\<exists>c \<in> set cells. looksCpf c), b \<or> (\<exists>c \<in> set cells. looksNome c))"
  by (induction cells arbitrary: a b) auto

lemma rowFlags_start:
  "rowFlags (False, False) cells = (cpfOk, nomeOk) \<Longrightarrow>
   (cpfOk \<and> nomeOk) = hasIdAndNameLabel cells"
  by (auto simp: rowFlags_eq hasIdAndNameLabel_def)

lemma scanLabels_found:
  "i \<le> k \<Longrightarrow> k < n \<Longrightarrow> hasIdAndNameLabel (rowAt aoa k) \<Longrightarrow>
   (\<forall>j. i \<le> j \<and> j < k \<longrightarrow> \<not> hasIdAndNameLabel (rowAt aoa j)) \<Longrightarrow>
   scanLabels aoa n i = Some k"
proof (induction aoa n i rule: scanLabels.induct)
  case (1 aoa maxScan i)
  obtain cpfOk nomeOk where fl: "rowFlags (False, False) (rowAt aoa i) = (cpfOk, nomeOk)"
    by (cases "rowFlags (False, False) (rowAt aoa i)") auto
  have both: "(cpfOk \<and> nomeOk) = hasIdAndNameLabel (rowAt aoa i)"
    using fl by (rule rowFlags_start)
  have lt: "i < maxScan" using "1.prems" by simp
  show ?case
  proof (cases "i = k")
    case True
    with "1.prems" both fl lt show ?thesis
      by (subst scanLabels.simps) simp
  next
    case False
    then have ik: "Suc i \<le> k" using "1.prems" by simp
    have no: "\<not> (cpfOk \<and> nomeOk)" using both "1.prems" False by auto
    have "scanLabels aoa maxScan (Suc i) = Some k"
      using "1.IH"[OF lt fl[symmetric] no ik] "1.prems" by auto
    with no fl lt show ?thesis
      by (subst scanLabels.simps) auto
  qed
qed

lemma scanLabels_none:
  "(\<forall>j. i \<le> j \<and> j < n \<longrightarrow> \<not> hasIdAndNameLabel (rowAt aoa j)) \<Longrightarrow>
   scanLabels aoa n i = None"
proof (induction aoa n i rule: scanLabels.induct)
  case (1 aoa maxScan i)
  show ?case
  proof (cases "i < maxScan")
    case False
    then show ?thesis by (subst scanLabels.simps) simp
  next
    case True
    obtain cpfOk nomeOk where fl: "rowFlags (False, False) (rowAt aoa i) = (cpfOk, nomeOk)"
      by (cases "rowFlags (False, False) (rowAt aoa i)") auto
    have both: "(cpfOk \<and> nomeOk) = hasIdAndNameLabel (rowAt aoa i)"
      using fl by (rule rowFlags_start)
    have no: "\<not> (cpfOk \<and> nomeOk)" using both "1.prems" True by auto
    have "scanLabels aoa maxScan (Suc i) = None"
      using "1.IH"[OF True fl[symmetric] no] "1.prems" by auto
    with no fl True show ?thesis
      by (subst scanLabels.simps) auto
  qed
qed

lemma scanFilled_found:
  "i \<le> k \<Longrightarrow> k < n \<Longrightarrow> 3 \<le> filled (rowAt aoa k) \<Longrightarrow>
   (\<forall>j. i \<le> j \<and> j < k \<longrightarrow> filled (rowAt aoa j) < 3) \<Longrightarrow>
   scanFilled aoa n i = Some k"
proof (induction aoa n i rule: scanFilled.induct)
  case (1 aoa maxScan i)
  have lt: "i < maxScan" using "1.prems" by simp
  show ?case
  proof (cases "i = k")
    case True
    with "1.prems" lt show ?thesis
      by (subst scanFilled.simps) simp
  next
    case False
    then have ik: "Suc i \<le> k" using "1.prems" by simp
    have no: "\<not> 3 \<le> filled (rowAt aoa i)" using "1.prems" False by auto
    have "scanFilled aoa maxScan (Suc i) = Some k"
      using "1.IH"[OF lt no ik] "1.prems" by auto
    with no lt show ?thesis
      by (subst scanFilled.simps) auto
  qed
qed

lemma scanFilled_none:
  "(\<forall>j. i \<le> j \<and> j < n \<longrightarrow> filled (rowAt aoa j) < 3) \<Longrightarrow> scanFilled aoa n i = None"
proof (induction aoa n i rule: scanFilled.induct)
  case (1 aoa maxScan i)
  show ?case
  proof (cases "i < maxScan")
    case False
    then show ?thesis by (subst scanFilled.simps) simp
  next
    case True
    have no: "\<not> 3 \<le> filled (rowAt aoa i)" using "1.prems" True by auto
    have "scanFilled aoa maxScan (Suc i) = None"
      using "1.IH"[OF True no] "1.prems" by auto
    with no True show ?thesis
      by (subst scanFilled.simps) auto
  qed
qed

text \<open>
  C3. Within the first 25 rows of a sheet: when some row has both a cell that looks
  like a national-id label and a cell that looks like a name label, header detection
  returns the index of the first such row; when no row has, it returns the index of the
  first row with at least 3 non-empty cells; when there is none either, it returns 0.
\<close>

theorem findHeaderRow_spec:
  "(i < min 25 (length aoa) \<and> hasIdAndNameLabel (aoa ! i)
      \<and> (\<forall>j<i. \<not> hasIdAndNameLabel (aoa ! j)) \<longrightarrow> findHeaderRow aoa = i)
   \<and> ((\<forall>j < min 25 (length aoa). \<not> hasIdAndNameLabel (aoa ! j))
      \<and> i < min 25 (length aoa) \<and> 3 \<le> filled (aoa ! i) \<and> (\<forall>j<i. filled (aoa ! j) < 3)
      \<longrightarrow> findHeaderRow aoa = i)
   \<and> ((\<forall>j < min 25 (length aoa). \<not> hasIdAndNameLabel (aoa ! j))
      \<and> (\<forall>j < min 25 (length aoa). filled (aoa ! j) < 3) \<longrightarrow> findHeaderRow aoa = 0)"
proof (intro conjI impI)
  assume h: "i < min 25 (length aoa) \<and> hasIdAndNameLabel (aoa ! i)
      \<and> (\<forall>j<i. \<not> hasIdAndNameLabel (aoa ! j))"
  have "scanLabels aoa (min 25 (length aoa)) 0 = Some i"
    using h by (intro scanLabels_found) (auto simp: rowAt_def)
  then show "findHeaderRow aoa = i" by (simp add: findHeaderRow_def)
next
  assume h: "(\<forall>j < min 25 (length aoa). \<not> hasIdAndNameLabel (aoa ! j))
      \<and> i < min 25 (length aoa) \<and> 3 \<le> filled (aoa ! i) \<and> (\<forall>j<i. filled (aoa ! j) < 3)"
  have a: "scanLabels aoa (min 25 (length aoa)) 0 = None"
    using h by (intro scanLabels_none) (auto simp: rowAt_def)
  have b: "scanFilled aoa (min 25 (length aoa)) 0 = Some i"
    using h by (intro scanFilled_found) (auto simp: rowAt_def)
  from a b show "findHeaderRow aoa = i" by (simp add: findHeaderRow_def)
next
  assume h: "(\<forall>j < min 25 (length aoa). \<not> hasIdAndNameLabel (aoa ! j))
      \<and> (\<forall>j < min 25 (length aoa). filled (aoa ! j) < 3)"
  have a: "scanLabels aoa (min 25 (length aoa)) 0 = None"
    using h by (intro scanLabels_none) (auto simp: rowAt_def)
  have b: "scanFilled aoa (min 25 (length aoa)) 0 = None"
    using h by (intro scanFilled_none) (auto simp: rowAt_def)
  from a b show "findHeaderRow aoa = 0" by (simp add: findHeaderRow_def)
qed

text \<open>The header below a banner and a blank row is found at index 2; without labels
  the first row with three filled cells is taken; without either the answer is 0.\<close>

theorem findHeaderRow_spec_witness:
  "findHeaderRow sheetWithBanner = 2 \<and> findHeaderRow sheetNoLabels = 2
   \<and> findHeaderRow sheetSparse = 0"
proof -
  have la: "min 25 (length sheetWithBanner) = 4" and lb: "min 25 (length sheetNoLabels) = 4"
    and lc: "min 25 (length sheetSparse) = 2"
    by (simp_all add: sheetWithBanner_def sheetNoLabels_def sheetSparse_def)
  have a2: "hasIdAndNameLabel (sheetWithBanner ! 2)" by code_simp
  have a0: "\<not> hasIdAndNameLabel (sheetWithBanner ! 0)" by code_simp
  have a1: "\<not> hasIdAndNameLabel (sheetWithBanner ! 1)" by code_simp
  have a: "2 < min 25 (length sheetWithBanner) \<and> hasIdAndNameLabel (sheetWithBanner ! 2)
      \<and> (\<forall>j<2. \<not> hasIdAndNameLabel (sheetWithBanner ! j))"
    using la a0 a1 a2 by (auto simp: less_Suc_eq numeral_eq_Suc)
  have n0: "\<not> hasIdAndNameLabel (sheetNoLabels ! 0)" by code_simp
  have n1: "\<not> hasIdAndNameLabel (sheetNoLabels ! 1)" by code_simp
  have n2: "\<not> hasIdAndNameLabel (sheetNoLabels ! 2)" by code_simp
  have n3: "\<not> hasIdAndNameLabel (sheetNoLabels ! 3)" by code_simp
  have b0: "\<forall>j < min 25 (length sheetNoLabels). \<not> hasIdAndNameLabel (sheetNoLabels ! j)"
    using lb n0 n1 n2 n3 by (auto simp: less_Suc_eq numeral_eq_Suc)
  have f0: "filled (sheetNoLabels ! 0) < 3" by code_simp
  have f1: "filled (sheetNoLabels ! 1) < 3" by code_simp
  have f2: "3 \<le> filled (sheetNoLabels ! 2)" by code_simp
  have b: "2 < min 25 (length sheetNoLabels) \<and> 3 \<le> filled (sheetNoLabels ! 2)
      \<and> (\<forall>j<2. filled (sheetNoLabels ! j) < 3)"
    using lb f0 f1 f2 by (auto simp: less_Suc_eq numeral_eq_Suc)
  have s0: "\<not> hasIdAndNameLabel (sheetSparse ! 0)" by code_simp
  have s1: "\<not> hasIdAndNameLabel (sheetSparse ! 1)" by code_simp
  have g0: "filled (sheetSparse ! 0) < 3" by code_simp
  have g1: "filled (sheetSparse ! 1) < 3" by code_simp
  have c: "(\<forall>j < min 25 (length sheetSparse). \<not> hasIdAndNameLabel (sheetSparse ! j))
      \<and> (\<forall>j < min 25 (length sheetSparse). filled (sheetSparse ! j) < 3)"
    using lc s0 s1 g0 g1 by (auto simp: less_Suc_eq numeral_eq_Suc)
  show ?thesis
    using findHeaderRow_spec [of 2 sheetWithBanner] findHeaderRow_spec [of 2 sheetNoLabels]
      findHeaderRow_spec [of 0 sheetSparse] a b0 b c
    by blast
qed

section \<open>Temporal classifier\<close>

lemma MS_DAY_pos: "0 < MS_DAY"
  by (simp add: MS_DAY_def)

lemma localMidnight_le: "localMidnight e t \<le> t"
proof -
  define g where "g = (t + tzOffset e) div MS_DAY"
  have "g * MS_DAY + (t + tzOffset e) mod MS_DAY = t + tzOffset e"
    by (simp add: g_def)
  moreover have "0 \<le> (t + tzOffset e) mod MS_DAY"
    using MS_DAY_pos by simp
  ultimately have "g * MS_DAY - tzOffset e \<le> t" by linarith
  then have "midnightOfDay e g \<le> t"
    by (simp add: midnightOfDay_def MS_HOUR_def)
  then show ?thesis
    by (simp add: localMidnight_def localDay_def Let_def g_def [symmetric])
qed

lemma sameDay_not_before:
  assumes "localDay e a = localDay e b"
  shows "\<not> a < localMidnight e b"
proof -
  from assms have "localMidnight e b = localMidnight e a"
    by (simp add: localMidnight_def)
  then show ?thesis using localMidnight_le [of e a] by simp
qed

lemma sameDay_midnight_diff:
  assumes "localDay e a = localDay e b"
  shows "(localMidnight e b - localMidnight e a) div MS_DAY = 0"
  using assms by (simp add: localMidnight_def)

lemma nextDay_midnight_diff:
  assumes "localDay e a + 1 = localDay e b"
    and "dstAtMidnight e (localDay e b) \<longrightarrow> dstAtMidnight e (localDay e a)"
  shows "(localMidnight e b - localMidnight e a) div MS_DAY = 1"
proof -
  have b: "localDay e b = localDay e a + 1"
    using assms(1) by simp
  have "dstAtMidnight e (localDay e a + 1) \<longrightarrow> dstAtMidnight e (localDay e a)"
    using assms(2) by (simp add: b)
  then have "localMidnight e b - localMidnight e a = MS_DAY
      \<or> localMidnight e b - localMidnight e a = MS_DAY + MS_HOUR"
    by (auto simp: localMidnight_def midnightOfDay_def b algebra_simps)
  then show ?thesis
    by (auto simp: MS_DAY_def MS_HOUR_def)
qed

lemmas status_eval = isPago_def norm_js_def trim_def isWhite_def toLowerCase_def blankOthers_def
  startsWith_def clientRow_def

lemmas date_eval = clientRow_def demoEnv_def vencDate_def demoDates_def localMidnight_def
  localDay_def midnightOfDay_def MS_DAY_def MS_HOUR_def baseHoje_def Let_def

lemma example_isPago:
  "isPago paidDueYesterday" "isPago paidDueToday" "\<not> isPago openDueYesterday"
  "\<not> isPago openDueToday"
  by (simp_all add: paidDueYesterday_def paidDueToday_def openDueYesterday_def openDueToday_def
      status_eval)

text \<open>
  C5. A paid record is neither due today nor overdue, whatever its due date; and no
  record, paid or not, is both due today and overdue.
\<close>

theorem paid_suppresses:
  "(isPago r \<longrightarrow> \<not> venceHoje e r \<and> \<not> atrasado e r)
   \<and> \<not> (venceHoje e r \<and> atrasado e r)"
proof (intro conjI impI)
  assume "isPago r"
  then show "\<not> venceHoje e r"
    by (simp add: venceHoje_def split: option.splits)
next
  assume "isPago r"
  then show "\<not> atrasado e r"
    by (simp add: atrasado_def split: option.splits)
next
  show "\<not> (venceHoje e r \<and> atrasado e r)"
  proof (cases "vencDate e r")
    case None
    then show ?thesis by (simp add: venceHoje_def)
  next
    case (Some d)
    show ?thesis
    proof (cases d)
      case InvalidDate
      with Some show ?thesis by (simp add: venceHoje_def)
    next
      case (ValidDate t)
      with Some show ?thesis
        using sameDay_not_before [of e t "today e"]
        by (auto simp: venceHoje_def atrasado_def baseHoje_def)
    qed
  qed
qed

text \<open>Paid records due yesterday and due today are in neither class; the unpaid record
  due yesterday is overdue and not due today.\<close>

theorem paid_suppresses_witness:
  "isPago paidDueYesterday \<and> \<not> venceHoje demoEnv paidDueYesterday
   \<and> \<not> atrasado demoEnv paidDueYesterday
   \<and> isPago paidDueToday \<and> \<not> venceHoje demoEnv paidDueToday \<and> \<not> atrasado demoEnv paidDueToday
   \<and> atrasado demoEnv openDueYesterday \<and> \<not> venceHoje demoEnv openDueYesterday"
proof -
  have o: "atrasado demoEnv openDueYesterday"
    using example_isPago by (simp add: openDueYesterday_def atrasado_def date_eval)
  show ?thesis
    using paid_suppresses [of paidDueYesterday demoEnv] paid_suppresses [of paidDueToday demoEnv]
      paid_suppresses [of openDueYesterday demoEnv] example_isPago o
    by blast
qed

text \<open>
  C6, as the code has it. A record without due date is 0 days late. A record whose due
  date falls on today's calendar day is 0 days late and not overdue, and it is due today
  exactly when it is not paid. A record whose due date falls on the calendar day before
  today is 1 day late, unless the clock was put forward between the midnights of the
  two days, which are then 23 hours apart.
\<close>

theorem daysLate_boundary:
  "(\<not> truthy (VencimentoISO r) \<longrightarrow> daysLate e r = Some 0)
   \<and> (vencDate e r = Some (ValidDate t) \<and> localDay e t = localDay e (today e) \<longrightarrow>
        daysLate e r = Some 0 \<and> \<not> atrasado e r \<and> venceHoje e r = (\<not> isPago r))
   \<and> (vencDate e r = Some (ValidDate t) \<and> localDay e t + 1 = localDay e (today e)
        \<and> (dstAtMidnight e (localDay e (today e)) \<longrightarrow> dstAtMidnight e (localDay e t)) \<longrightarrow>
        daysLate e r = Some 1)"
proof (intro conjI impI)
  assume "\<not> truthy (VencimentoISO r)"
  then show "daysLate e r = Some 0"
    by (simp add: daysLate_def vencDate_def)
next
  assume h: "vencDate e r = Some (ValidDate t) \<and> localDay e t = localDay e (today e)"
  then show "daysLate e r = Some 0"
    using sameDay_midnight_diff [of e t "today e"] by (simp add: daysLate_def Let_def)
  from h show "\<not> atrasado e r"
    using sameDay_not_before [of e t "today e"]
    by (simp add: atrasado_def baseHoje_def)
  from h show "venceHoje e r = (\<not> isPago r)"
    by (simp add: venceHoje_def)
next
  assume h: "vencDate e r = Some (ValidDate t) \<and> localDay e t + 1 = localDay e (today e)
        \<and> (dstAtMidnight e (localDay e (today e)) \<longrightarrow> dstAtMidnight e (localDay e t))"
  then have "(localMidnight e (today e) - localMidnight e t) div MS_DAY = 1"
    by (intro nextDay_midnight_diff) simp_all
  with h show "daysLate e r = Some 1"
    by (simp add: daysLate_def Let_def)
qed

text \<open>No due date, due today and unpaid, due today and paid, due yesterday.\<close>

theorem daysLate_boundary_witness:
  "daysLate demoEnv noDueDate = Some 0
   \<and> daysLate demoEnv openDueToday = Some 0 \<and> venceHoje demoEnv openDueToday
   \<and> \<not> atrasado demoEnv openDueToday
   \<and> daysLate demoEnv paidDueToday = Some 0 \<and> \<not> venceHoje demoEnv paidDueToday
   \<and> \<not> atrasado demoEnv paidDueToday
   \<and> daysLate demoEnv openDueYesterday = Some 1"
proof -
  have n: "\<not> truthy (VencimentoISO noDueDate)"
    by (simp add: noDueDate_def clientRow_def)
  have t: "vencDate demoEnv openDueToday = Some (ValidDate 1710471600000)
      \<and> localDay demoEnv 1710471600000 = localDay demoEnv (today demoEnv)"
    by (simp add: openDueToday_def date_eval)
  have tp: "vencDate demoEnv paidDueToday = Some (ValidDate 1710471600000)
      \<and> localDay demoEnv 1710471600000 = localDay demoEnv (today demoEnv)"
    by (simp add: paidDueToday_def date_eval)
  have y: "vencDate demoEnv openDueYesterday = Some (ValidDate 1710385200000)
      \<and> localDay demoEnv 1710385200000 + 1 = localDay demoEnv (today demoEnv)
      \<and> (dstAtMidnight demoEnv (localDay demoEnv (today demoEnv))
           \<longrightarrow> dstAtMidnight demoEnv (localDay demoEnv 1710385200000))"
    by (simp add: openDueYesterday_def date_eval)
  show ?thesis
    using daysLate_boundary [of noDueDate demoEnv 0]
      daysLate_boundary [of openDueToday demoEnv 1710471600000]
      daysLate_boundary [of paidDueToday demoEnv 1710471600000]
      daysLate_boundary [of openDueYesterday demoEnv 1710385200000] n t tp y example_isPago
    by blast
qed

text \<open>
  The two records that C6 as written gets wrong. The first is paid, has its due date
  on today's calendar day and is 0 days late, and it is not classified as due today.
  The second is due on 10 March 2024 in New York, the calendar day before today, the
  day on which the clock went forward: the midnights of the two days are 23 hours
  apart, the record is overdue and not paid, and it is 0 days late.
\<close>

theorem due_today_paid_counterexample:
  "daysLate demoEnv paidDueToday = Some 0
   \<and> sameDay demoEnv (vencDate demoEnv paidDueToday) (Some (ValidDate (today demoEnv)))
   \<and> \<not> venceHoje demoEnv paidDueToday
   \<and> vencDate nyEnv dueBeforeClockChange = Some (ValidDate 1710046800000)
   \<and> localDay nyEnv 1710046800000 + 1 = localDay nyEnv (today nyEnv)
   \<and> localMidnight nyEnv (today nyEnv) - localMidnight nyEnv 1710046800000 = 23 * MS_HOUR
   \<and> atrasado nyEnv dueBeforeClockChange
   \<and> daysLate nyEnv dueBeforeClockChange = Some 0"
proof -
  have d: "daysLate demoEnv paidDueToday = Some 0"
    by (simp add: paidDueToday_def daysLate_def date_eval)
  have s: "sameDay demoEnv (vencDate demoEnv paidDueToday) (Some (ValidDate (today demoEnv)))"
    by (simp add: paidDueToday_def date_eval)
  have v: "\<not> venceHoje demoEnv paidDueToday"
    using example_isPago by (simp add: venceHoje_def split: option.splits)
  have nv: "vencDate nyEnv dueBeforeClockChange = Some (ValidDate 1710046800000)"
    by (simp add: dueBeforeClockChange_def clientRow_def vencDate_def nyEnv_def)
  have nd: "localDay nyEnv 1710046800000 = 19792" "localDay nyEnv (today nyEnv) = 19793"
    by (simp_all add: nyEnv_def localDay_def midnightOfDay_def MS_DAY_def MS_HOUR_def Let_def)
  have nm: "localMidnight nyEnv 1710046800000 = 1710046800000"
    "localMidnight nyEnv (today nyEnv) = 1710129600000"
    by (simp_all add: localMidnight_def nd)
      (simp_all add: nyEnv_def midnightOfDay_def MS_DAY_def MS_HOUR_def)
  have np: "\<not> isPago dueBeforeClockChange"
    by (simp add: dueBeforeClockChange_def status_eval)
  have na: "atrasado nyEnv dueBeforeClockChange"
    using nv np nm by (simp add: atrasado_def baseHoje_def)
  have nl: "daysLate nyEnv dueBeforeClockChange = Some 0"
    using nv nm by (simp add: daysLate_def Let_def MS_DAY_def)
  from d s v nv nd nm na nl show ?thesis by (simp add: MS_HOUR_def)
qed

section \<open>Bulk selection\<close>

lemma bulk_breach_pipeline:
  "bulkPhoneList (filter (\<lambda>r. atrasado e r \<and> numGreater (daysLate e r) 5 \<and> \<not> isPago r) view)
   = breachPhones e view"
  by (induction view) (auto simp: bulkPhoneList_def breachPhones_def)

lemma demoView_daysLate:
  "map (daysLate demoEnv) demoView = [Some 6, Some 3, Some 10, Some 10, Some (- 5)]"
  by (simp add: demoView_def daysLate_def date_eval)

lemma demoView_isPago: "map isPago demoView = [False, False, False, True, False]"
  by (simp add: demoView_def status_eval)

lemma demoView_atrasado: "map (atrasado demoEnv) demoView = [True, True, True, False, False]"
  using demoView_isPago by (simp add: demoView_def atrasado_def date_eval)

lemma demoView_breachPhones:
  "breachPhones demoEnv demoView = [''5511987654321'', ''5521912345678'']"
  using demoView_daysLate demoView_isPago demoView_atrasado
  by (simp add: breachPhones_def demoView_def onlyDigits_def orElse_def isDigit_def
      startsWith_def clientRow_def)

text \<open>
  C7. On a view, the bulk copy of kind \<open>QUEBRAS\<close> puts on the clipboard, one per line
  and in the order of the view, the phones of exactly the records that are overdue,
  not paid and more than 5 days late: the digits of each phone, left out when fewer
  than 10, with \<open>55\<close> in front unless the digits start with \<open>55\<close>, duplicates kept.
  Nothing is copied from an empty view or when no record matches.
\<close>

theorem breach_selection:
  "copyBulkFromCurrentView e ''QUEBRAS'' view =
     (if view = [] then EmptyView
      else if filter (\<lambda>r. atrasado e r \<and> \<not> isPago r \<and> numGreater (daysLate e r) 5) view = []
        then NoMatch
      else Copied (joinLines (breachPhones e view))
             (length (filter (\<lambda>r. atrasado e r \<and> \<not> isPago r \<and> numGreater (daysLate e r) 5) view)))"
proof -
  have eq: "(\<lambda>r. atrasado e r \<and> numGreater (daysLate e r) 5 \<and> \<not> isPago r)
          = (\<lambda>r. atrasado e r \<and> \<not> isPago r \<and> numGreater (daysLate e r) 5)"
    by auto
  show ?thesis
    using bulk_breach_pipeline [of e view]
    by (simp add: copyBulkFromCurrentView_def bulkPhones_def Let_def eq)
qed

text \<open>The view of five records with two of them overdue by 6 and by 10 days and not
  paid: exactly their two phones are copied, in the order of the view.\<close>

theorem breach_selection_witness:
  "copyBulkFromCurrentView demoEnv ''QUEBRAS'' demoView
     = Copied (''5511987654321'' @ [CHR 0x0A] @ ''5521912345678'') 2"
proof -
  have sel: "filter (\<lambda>r. atrasado demoEnv r \<and> \<not> isPago r \<and> numGreater (daysLate demoEnv r) 5)
               demoView = [demoView ! 0, demoView ! 2]"
    using demoView_daysLate demoView_isPago demoView_atrasado by (simp add: demoView_def)
  show ?thesis
    using breach_selection [of demoEnv demoView] sel demoView_breachPhones
    by (simp add: demoView_def)
qed

section \<open>Row normalizer\<close>

lemma keepRow_mapRow: "keepRow (mapRow e raw) = (\<not> idNamePhoneBlank raw)"
  by (auto simp: keepRow_def mapRow_def Let_def idNamePhoneBlank_def orElse_def)

text \<open>
  C8. A raw row gives no record exactly when its national id, its name and its phone
  are all empty after trimming; otherwise it gives the record of \<open>mapRow\<close>, whatever
  its amount and its due date are. On a whole sheet the records are those of the rows
  that are not blank in this sense, in their order.
\<close>

theorem row_survival:
  "(loadSelectedSheet e [raw] = []) = idNamePhoneBlank raw
   \<and> (\<not> idNamePhoneBlank raw \<longrightarrow>
        loadSelectedSheet e [raw] = [(mapRow e raw)\<lparr>row_id := JStr ''1''\<rparr>])
   \<and> loadSelectedSheet e json
        = withId 0 (map (mapRow e) (filter (\<lambda>raw. \<not> idNamePhoneBlank raw) json))"
proof (intro conjI impI)
  show "(loadSelectedSheet e [raw] = []) = idNamePhoneBlank raw"
    by (simp add: loadSelectedSheet_def keepRow_mapRow)
next
  assume "\<not> idNamePhoneBlank raw"
  then show "loadSelectedSheet e [raw] = [(mapRow e raw)\<lparr>row_id := JStr ''1''\<rparr>]"
    by (simp add: loadSelectedSheet_def keepRow_mapRow numToString_def natToString.simps
        digitChar_def)
next
  have "filter keepRow (map (mapRow e) json)
        = map (mapRow e) (filter (\<lambda>raw. \<not> idNamePhoneBlank raw) json)"
    by (induction json) (simp_all add: keepRow_mapRow)
  then show "loadSelectedSheet e json
        = withId 0 (map (mapRow e) (filter (\<lambda>raw. \<not> idNamePhoneBlank raw) json))"
    by (simp add: loadSelectedSheet_def)
qed

text \<open>The row with amount and due date only is dropped; the row with a name only
  survives, with its name trimmed and no due date.\<close>

theorem row_survival_witness:
  "loadSelectedSheet demoEnv [rawBlank] = []
   \<and> map Nome (loadSelectedSheet demoEnv [rawNameOnly]) = [JStr ''Ana'']
   \<and> map VencimentoISO (loadSelectedSheet demoEnv [rawNameOnly]) = [JStr []]
   \<and> map Valor (loadSelectedSheet demoEnv [rawNameOnly]) = [JStr ''a combinar'']"
proof -
  have b: "idNamePhoneBlank rawBlank" by code_simp
  have n: "\<not> idNamePhoneBlank rawNameOnly" by code_simp
  have f: "Nome (mapRow demoEnv rawNameOnly) = JStr ''Ana''"
    "VencimentoISO (mapRow demoEnv rawNameOnly) = JStr []"
    "Valor (mapRow demoEnv rawNameOnly) = JStr ''a combinar''"
    by code_simp+
  show ?thesis
    using row_survival [of demoEnv rawBlank "[]"] row_survival [of demoEnv rawNameOnly "[]"] b n f
    by simp
qed

section \<open>Messaging link\<close>

text \<open>
  C9. The link builder returns a link exactly when the normalized phone, that is the
  digits of the phone with \<open>55\<close> in front unless they start with \<open>55\<close>, has at least
  12 digits; the link is then the address of that number with the encoded message;
  otherwise the result is the empty string.
\<close>

theorem whats_link:
  "(buildWhatsLinkBR e tel msg \<noteq> []) =
      (12 \<le> length (if startsWith (onlyDigits tel) ''55'' then onlyDigits tel
                     else ''55'' @ onlyDigits tel))
   \<and> (12 \<le> length (if startsWith (onlyDigits tel) ''55'' then onlyDigits tel
                     else ''55'' @ onlyDigits tel) \<longrightarrow>
        buildWhatsLinkBR e tel msg =
          ''https://wa.me/'' @ (if startsWith (onlyDigits tel) ''55'' then onlyDigits tel
                                else ''55'' @ onlyDigits tel)
            @ ''?text='' @ encodeURIComponent e msg)
   \<and> (length (if startsWith (onlyDigits tel) ''55'' then onlyDigits tel
                else ''55'' @ onlyDigits tel) < 12 \<longrightarrow>
        buildWhatsLinkBR e tel msg = [])"
  by (simp add: buildWhatsLinkBR_def e164_def Let_def)

text \<open>A phone with area code gives a link; a phone of nine digits gives none.\<close>

theorem whats_link_witness:
  "buildWhatsLinkBR demoEnv (JStr ''(11) 98765-4321'') ''Ola Ana''
     = ''https://wa.me/5511987654321?text=Ola%20Ana''
   \<and> buildWhatsLinkBR demoEnv (JStr ''98765-4321'') ''Ola Ana'' = []"
proof -
  have d: "onlyDigits (JStr ''(11) 98765-4321'') = ''11987654321''"
    "onlyDigits (JStr ''98765-4321'') = ''987654321''"
    by (simp_all add: onlyDigits_def orElse_def isDigit_def)
  have m: "encodeURIComponent demoEnv ''Ola Ana'' = ''Ola%20Ana''"
    by (simp add: demoEnv_def)
  show ?thesis
    using whats_link [of demoEnv "JStr ''(11) 98765-4321''" "''Ola Ana''"]
      whats_link [of demoEnv "JStr ''98765-4321''" "''Ola Ana''"] d m
    by (simp add: startsWith_def)
qed

section \<open>Promise store\<close>

text \<open>
  C10. Storing a payload under a key leaves the payload of every other key as it was
  and makes the payload of that key the new one; storing the null payload under a key
  removes the entry of that key and leaves every other key as it was.
\<close>

theorem upsert_frame:
  "(k' \<noteq> k \<longrightarrow> upsertPromiseByKey k (Some p) store k' = store k')
   \<and> upsertPromiseByKey k (Some p) store k = Some p
   \<and> (k' \<noteq> k \<longrightarrow> upsertPromiseByKey k None store k' = store k')
   \<and> upsertPromiseByKey k None store k = None"
  by (simp add: upsertPromiseByKey_def)

text \<open>Adding and removing a second key leaves the promise of the first key alone.\<close>

theorem upsert_frame_witness:
  "upsertPromiseByKey ''tel:11987654321'' (Some demoPromise) demoStore ''cpf:11111111111''
     = Some demoPromise
   \<and> upsertPromiseByKey ''tel:11987654321'' None demoStore ''cpf:11111111111'' = Some demoPromise
   \<and> upsertPromiseByKey ''cpf:11111111111'' None demoStore ''cpf:11111111111'' = None"
proof -
  have ne: "''cpf:11111111111'' \<noteq> ''tel:11987654321''" by simp
  have s: "demoStore ''cpf:11111111111'' = Some demoPromise"
    by (simp add: demoStore_def)
  show ?thesis
    using upsert_frame [of "''cpf:11111111111''" "''tel:11987654321''" demoPromise demoStore]
      upsert_frame [of "''cpf:11111111111''" "''cpf:11111111111''" demoPromise demoStore] ne s
    by simp
qed

section \<open>Reconciliation\<close>

lemma key_PromessaISO_update:
  "keyForClientLike (r\<lparr>PromessaISO := v\<rparr>) = keyForClientLike r"
  by (simp add: keyForClientLike_def Let_def)

lemma key_source_update:
  "keyForClientLike (r\<lparr>source := v\<rparr>) = keyForClientLike r"
  by (simp add: keyForClientLike_def Let_def)

lemma merge_idem:
  "mergePromisesIntoRows ps (mergePromisesIntoRows ps rs) = mergePromisesIntoRows ps rs"
  by (induction rs)
    (auto simp: mergePromisesIntoRows_def Let_def key_PromessaISO_update split: option.splits)

lemma importedAna_key: "keyForClientLike importedAna = ''cpf:11111111111''"
  by (simp add: importedAna_def clientRow_def keyForClientLike_def Let_def onlyDigits_def
      orElse_def isDigit_def)

lemma demoState_rows:
  "rows demoState = [importedAna\<lparr>source := JStr ''excel'', PromessaISO := JStr ''2024-03-20T03:00:00.000Z''\<rparr>]"
proof -
  have "keyForClientLike (importedAna\<lparr>source := JStr ''excel''\<rparr>) = ''cpf:11111111111''"
    using importedAna_key by (simp add: key_source_update)
  then show ?thesis
    by (simp add: demoState_def composeRows_def manualRows_def mergePromisesIntoRows_def Let_def
        demoStore_def demoPromise_def)
qed

text \<open>
  C2. Composing the working set is idempotent: the overlay applied once more to a
  composed working set, with the same store, gives the same working set, record by
  record and field by field; and rebuilding it twice from the same manual clients,
  imported rows and store gives the state that rebuilding it once gives.
\<close>

theorem compose_idempotent:
  "mergePromisesIntoRows ps (composeRows mc ps imp) = composeRows mc ps imp
   \<and> setRowsComposed imp (setRowsComposed imp st) = setRowsComposed imp st"
  by (simp add: composeRows_def Let_def merge_idem setRowsComposed_def)

text \<open>On the example state, whose one row carries the promise of the store.\<close>

theorem compose_idempotent_witness:
  "map PromessaISO (composeRows [] demoStore [importedAna]) = [JStr ''2024-03-20T03:00:00.000Z'']
   \<and> mergePromisesIntoRows demoStore (composeRows [] demoStore [importedAna])
       = composeRows [] demoStore [importedAna]
   \<and> setRowsComposed [importedAna] (setRowsComposed [importedAna] demoState)
       = setRowsComposed [importedAna] demoState"
proof -
  have "composeRows [] demoStore [importedAna] = rows demoState"
    by (simp add: demoState_def)
  then have "map PromessaISO (composeRows [] demoStore [importedAna])
      = [JStr ''2024-03-20T03:00:00.000Z'']"
    by (simp only: demoState_rows) simp
  then show ?thesis
    using compose_idempotent [of demoStore "[]" "[importedAna]" demoState] by simp
qed

text \<open>
  C1. The state \<open>demoState\<close> holds one row whose key is \<open>cpf:11111111111\<close> and a promise
  stored under that key, which the row carries. After \<open>removePromiseByKey\<close> on that key
  the store has no entry for it, and the row still carries the promise date. It carries
  it as well when the rows are merged with the store from which the key is gone, be it
  the rows before or after the removal: a row without promise in the store comes back
  as it was.
\<close>

theorem removePromise_keeps_overlay:
  "promises (removePromiseByKey True ''cpf:11111111111'' demoState) ''cpf:11111111111'' = None
   \<and> map keyForClientLike (rows (removePromiseByKey True ''cpf:11111111111'' demoState))
       = [''cpf:11111111111'']
   \<and> map PromessaISO (rows (removePromiseByKey True ''cpf:11111111111'' demoState))
       = [JStr ''2024-03-20T03:00:00.000Z'']
   \<and> map hasPromessa (rows (removePromiseByKey True ''cpf:11111111111'' demoState)) = [True]
   \<and> map PromessaISO
       (mergePromisesIntoRows (upsertPromiseByKey ''cpf:11111111111'' None demoStore)
          (rows demoState))
       = [JStr ''2024-03-20T03:00:00.000Z'']
   \<and> map PromessaISO
       (mergePromisesIntoRows (upsertPromiseByKey ''cpf:11111111111'' None demoStore)
          (rows (removePromiseByKey True ''cpf:11111111111'' demoState)))
       = [JStr ''2024-03-20T03:00:00.000Z'']"
proof -
  let ?r = "importedAna\<lparr>source := JStr ''excel'', PromessaISO := JStr ''2024-03-20T03:00:00.000Z''\<rparr>"
  have k: "keyForClientLike ?r = ''cpf:11111111111''"
    using importedAna_key by (simp add: key_source_update key_PromessaISO_update)
  have p: "promises demoState = demoStore"
    by (simp add: demoState_def)
  have after: "rows (removePromiseByKey True ''cpf:11111111111'' demoState) = [?r]"
    using k by (simp add: removePromiseByKey_def demoState_rows p mergePromisesIntoRows_def
        Let_def demoStore_def demoPromise_def)
  have gone: "mergePromisesIntoRows (upsertPromiseByKey ''cpf:11111111111'' None demoStore) [?r] = [?r]"
    using k by (simp add: mergePromisesIntoRows_def Let_def upsertPromiseByKey_def)
  have store: "promises (removePromiseByKey True ''cpf:11111111111'' demoState) ''cpf:11111111111''
      = None"
    by (simp add: removePromiseByKey_def upsertPromiseByKey_def)
  show ?thesis
    using k after gone store by (simp add: demoState_rows hasPromessa_def)
qed

end
